theory Spec2Isabelle
  imports Complex_Main
begin

section \<open>Football analytics API: the data served\<close>

text \<open>
  The service reads JSON fixtures and returns them. A decoded JSON document is a Python
  value built from \<open>None\<close>, \<open>bool\<close>, \<open>int\<close>, \<open>float\<close>, \<open>str\<close>, \<open>list\<close> and \<open>dict\<close>.
  Python's \<open>int\<close> is unbounded (\<open>int\<close> here). A finite \<open>float\<close> is read as the real
  number it denotes (\<open>JFloat\<close>); \<open>json.load\<close> also returns the three floats that are
  not finite, for the texts \<open>NaN\<close>, \<open>Infinity\<close> and \<open>-Infinity\<close> and for a number too
  large for a float such as \<open>1e999\<close>: \<open>JNaN\<close>, \<open>JInfinity\<close> and \<open>JNegInfinity\<close>.
  A \<open>str\<close> is the list of the bytes that encode it: UTF-8, in which a lone surrogate,
  which \<open>json.load\<close> builds from the escape of the code point D800, takes the three
  bytes of its code point. A \<open>dict\<close> keeps its keys in insertion order: an association list,
  looked up with \<open>map_of\<close>.
\<close>

datatype json =
    JNull
  | JBool bool
  | JInt int
  | JFloat real
  | JNaN
  | JInfinity
  | JNegInfinity
  | JStr string
  | JArray "json list"
  | JObject "(string \<times> json) list"

subsection \<open>Exceptions\<close>

text \<open>
  The exceptions of the standard library that reach this program, by their class, and
  what a handler may raise: \<open>HTTPException(status_code, detail)\<close>, which the handlers
  construct themselves, or an exception of the library that no handler catches.
\<close>

datatype error =
    JSONDecodeError
  | UnicodeDecodeError
  | UnicodeEncodeError
  | ValueError
  | RecursionError
  | FileNotFoundError
  | IsADirectoryError
  | PermissionError
  | OSError

datatype exn =
    HTTPException nat string
  | Raised error

subsection \<open>The library: decoding and rendering JSON\<close>

text \<open>
  \<open>json.load\<close> belongs to the standard library, not to this repository: the decoder is a
  parameter of every function that calls it. It takes the bytes of a file and returns the
  decoded document or the exception that \<open>json.load\<close> raises on them:
  \<open>JSONDecodeError\<close> for text that is not JSON, \<open>UnicodeDecodeError\<close> for bytes that
  are not UTF-8, \<open>RecursionError\<close> for a document nested too deeply, \<open>ValueError\<close>
  for an integer of more digits than the interpreter converts.

  What the framework makes of a value of the declared shape, when it renders it as the
  JSON body of a response, is a parameter as well: the document the client receives, or
  the exception raised on a value that cannot be sent (a string that cannot be encoded, a
  value nested too deeply). It need not return the value it is given: a float that is not
  finite is sent as \<open>null\<close> or refused, depending on the framework's version.
\<close>

type_synonym decoder = "string \<Rightarrow> error + json"

type_synonym renderer = "json \<Rightarrow> error + json"

subsection \<open>Paths and the file store\<close>

text \<open>
  A \<open>pathlib.Path\<close> is the list of its components, relative to the directory that holds
  \<open>main.py\<close>; \<open>Path.parent\<close> drops the last component and the operator \<open>/\<close> appends
  its right operand, kept as one component whatever it contains: the store is asked for
  the path as the program built it.

  The persistent state of the service is the file store, which tells for every path what
  is found there: nothing (\<open>Path.exists\<close> is false), a file with its bytes, a
  directory, a file that may not be read, or a path that cannot even be examined (a component that may not be searched, a
  name that is too long), with the error the operating system reports.
  \<open>Path.exists\<close> is true of whatever is there and raises the error of a path that cannot
  be examined; \<open>open\<close> for reading gives the bytes of a file and raises on everything
  else. Every operation takes the store and returns it, so that a write, if there were
  one, would show in the result.
\<close>

type_synonym path = "string list"

datatype node =
    Missing
  | File string
  | Directory
  | Unreadable
  | Inaccessible error

type_synonym filestore = "path \<Rightarrow> node"

definition parent :: "path \<Rightarrow> path" where
  "parent p = butlast p"

definition joinpath :: "path \<Rightarrow> string \<Rightarrow> path" where
  "joinpath p name = p @ [name]"

definition path_exists :: "path \<Rightarrow> filestore \<Rightarrow> (error + bool) \<times> filestore" where
  "path_exists p fs =
     ((case fs p of
         Missing \<Rightarrow> Inr False
       | Inaccessible e \<Rightarrow> Inl e
       | _ \<Rightarrow> Inr True), fs)"

definition open_read :: "path \<Rightarrow> filestore \<Rightarrow> (error + string) \<times> filestore" where
  "open_read p fs =
     ((case fs p of
         Missing \<Rightarrow> Inl FileNotFoundError
       | File content \<Rightarrow> Inr content
       | Directory \<Rightarrow> Inl IsADirectoryError
       | Unreadable \<Rightarrow> Inl PermissionError
       | Inaccessible e \<Rightarrow> Inl e), fs)"

section \<open>routes/tactical.py\<close>

text \<open>
  \<open>load_json_file\<close> tests the path, raises the 404 \<open>HTTPException\<close> when nothing is
  there, and otherwise opens and decodes the file inside a \<open>try\<close> whose only handler is
  \<open>except json.JSONDecodeError\<close>: that exception becomes the 500 \<open>HTTPException\<close>,
  every other one leaves the function as it is.
\<close>

definition tactical_file :: path where
  "tactical_file = [''routes'', ''tactical.py'']"

definition tactical_BASE_DIR :: path where
  "tactical_BASE_DIR = parent (parent tactical_file)"

definition tactical_DUMMY_DATA_DIR :: path where
  "tactical_DUMMY_DATA_DIR = joinpath tactical_BASE_DIR ''dummy_data''"

definition tactical_load_json_file ::
  "decoder \<Rightarrow> string \<Rightarrow> filestore \<Rightarrow> (exn + json) \<times> filestore" where
  "tactical_load_json_file json_load filename fs =
     (let file_path = joinpath tactical_DUMMY_DATA_DIR filename
      in case path_exists file_path fs of
           (Inl e, fs1) \<Rightarrow> (Inl (Raised e), fs1)
         | (Inr present, fs1) \<Rightarrow>
             if \<not> present
             then (Inl (HTTPException 404 (''Data file '' @ filename @ '' not found'')), fs1)
             else (case open_read file_path fs1 of
                     (Inl e, fs2) \<Rightarrow>
                       (if e = JSONDecodeError
                        then Inl (HTTPException 500 (''Error parsing '' @ filename))
                        else Inl (Raised e), fs2)
                   | (Inr content, fs2) \<Rightarrow>
                       (case json_load content of
                          Inl e \<Rightarrow>
                            (if e = JSONDecodeError
                             then Inl (HTTPException 500 (''Error parsing '' @ filename))
                             else Inl (Raised e), fs2)
                        | Inr data \<Rightarrow> (Inr data, fs2))))"

definition get_heatmap :: "decoder \<Rightarrow> filestore \<Rightarrow> (exn + json) \<times> filestore" where
  "get_heatmap json_load fs = tactical_load_json_file json_load ''heatmap.json'' fs"

definition get_pass_network :: "decoder \<Rightarrow> filestore \<Rightarrow> (exn + json) \<times> filestore" where
  "get_pass_network json_load fs = tactical_load_json_file json_load ''pass_network.json'' fs"

definition get_tracking :: "decoder \<Rightarrow> filestore \<Rightarrow> (exn + json) \<times> filestore" where
  "get_tracking json_load fs = tactical_load_json_file json_load ''tracking.json'' fs"

section \<open>routes/decisions.py\<close>

definition decisions_file :: path where
  "decisions_file = [''routes'', ''decisions.py'']"

definition decisions_BASE_DIR :: path where
  "decisions_BASE_DIR = parent (parent decisions_file)"

definition decisions_DUMMY_DATA_DIR :: path where
  "decisions_DUMMY_DATA_DIR = joinpath decisions_BASE_DIR ''dummy_data''"

definition decisions_load_json_file ::
  "decoder \<Rightarrow> string \<Rightarrow> filestore \<Rightarrow> (exn + json) \<times> filestore" where
  "decisions_load_json_file json_load filename fs =
     (let file_path = joinpath decisions_DUMMY_DATA_DIR filename
      in case path_exists file_path fs of
           (Inl e, fs1) \<Rightarrow> (Inl (Raised e), fs1)
         | (Inr present, fs1) \<Rightarrow>
             if \<not> present
             then (Inl (HTTPException 404 (''Data file '' @ filename @ '' not found'')), fs1)
             else (case open_read file_path fs1 of
                     (Inl e, fs2) \<Rightarrow>
                       (if e = JSONDecodeError
                        then Inl (HTTPException 500 (''Error parsing '' @ filename))
                        else Inl (Raised e), fs2)
                   | (Inr content, fs2) \<Rightarrow>
                       (case json_load content of
                          Inl e \<Rightarrow>
                            (if e = JSONDecodeError
                             then Inl (HTTPException 500 (''Error parsing '' @ filename))
                             else Inl (Raised e), fs2)
                        | Inr data \<Rightarrow> (Inr data, fs2))))"

definition get_offside :: "decoder \<Rightarrow> filestore \<Rightarrow> (exn + json) \<times> filestore" where
  "get_offside json_load fs = decisions_load_json_file json_load ''offside.json'' fs"

definition get_fouls :: "decoder \<Rightarrow> filestore \<Rightarrow> (exn + json) \<times> filestore" where
  "get_fouls json_load fs = decisions_load_json_file json_load ''fouls.json'' fs"

definition get_goal_prediction :: "decoder \<Rightarrow> filestore \<Rightarrow> (exn + json) \<times> filestore" where
  "get_goal_prediction json_load fs =
     decisions_load_json_file json_load ''goal_prediction.json'' fs"

section \<open>routes/upload.py\<close>

text \<open>
  Of the uploaded file the handler reads two attributes, each a string or \<open>None\<close>; it
  never reads the file's bytes. The test \<open>not video.content_type\<close> holds for \<open>None\<close> and
  for the empty string, and \<open>or\<close> evaluates its right operand only when the left one is
  false: the case distinction below.
\<close>

record UploadFile =
  filename :: "string option"
  content_type :: "string option"

definition startswith :: "string \<Rightarrow> string \<Rightarrow> bool" where
  "startswith s pre = (take (length pre) s = pre)"

definition upload_video :: "UploadFile \<Rightarrow> filestore \<Rightarrow> (exn + json) \<times> filestore" where
  "upload_video video fs =
     (case content_type video of
        None \<Rightarrow> (Inl (HTTPException 400 ''File must be a video''), fs)
      | Some ct \<Rightarrow>
          if ct = [] \<or> \<not> startswith ct ''video/''
          then (Inl (HTTPException 400 ''File must be a video''), fs)
          else (Inr (JObject
                  [(''message'', JStr ''Video uploaded successfully''),
                   (''video_id'', JInt 1),
                   (''filename'', (case filename video of None \<Rightarrow> JNull | Some name \<Rightarrow> JStr name)),
                   (''content_type'', JStr ct)]), fs))"

section \<open>main.py: the routes and the responses\<close>

text \<open>
  Each route is registered with a \<open>response_model\<close>. The framework checks the value a
  handler returns against it before it answers: \<open>Dict[str, Any]\<close> admits a dict (the keys
  of a decoded JSON object are strings, the values are unconstrained) and
  \<open>List[Dict[str, Any]]\<close> a list of dicts. A value that fails raises a response
  validation error inside the framework. A value that passes is rendered; the rendering
  is the body of the answer, with status 200, and an exception raised while rendering is
  an exception like any other. An \<open>HTTPException\<close> is answered with its status code and
  the body \<open>{"detail": detail}\<close>; any other exception is answered with status 500 and the
  plain text \<open>Internal Server Error\<close>.
\<close>

fun Dict_str_Any :: "json \<Rightarrow> bool" where
  "Dict_str_Any (JObject d) = True"
| "Dict_str_Any v = False"

fun List_Dict_str_Any :: "json \<Rightarrow> bool" where
  "List_Dict_str_Any (JArray vs) = list_all Dict_str_Any vs"
| "List_Dict_str_Any v = False"

datatype response =
    JSONResponse nat json
  | PlainTextResponse nat string

fun status_code :: "response \<Rightarrow> nat" where
  "status_code (JSONResponse code content) = code"
| "status_code (PlainTextResponse code content) = code"

definition respond :: "renderer \<Rightarrow> (json \<Rightarrow> bool) \<Rightarrow> exn + json \<Rightarrow> response" where
  "respond render response_model outcome =
     (case outcome of
        Inl (HTTPException code detail) \<Rightarrow> JSONResponse code (JObject [(''detail'', JStr detail)])
      | Inl (Raised e) \<Rightarrow> PlainTextResponse 500 ''Internal Server Error''
      | Inr content \<Rightarrow>
          if response_model content
          then (case render content of
                  Inr body \<Rightarrow> JSONResponse 200 body
                | Inl e \<Rightarrow> PlainTextResponse 500 ''Internal Server Error'')
          else PlainTextResponse 500 ''Internal Server Error'')"

definition route ::
  "renderer \<Rightarrow> (json \<Rightarrow> bool) \<Rightarrow> (filestore \<Rightarrow> (exn + json) \<times> filestore) \<Rightarrow> filestore \<Rightarrow>
     response \<times> filestore" where
  "route render response_model handler fs =
     (case handler fs of (outcome, fs') \<Rightarrow> (respond render response_model outcome, fs'))"

text \<open>
  What \<open>root\<close>, \<open>health_check\<close> and \<open>upload_video\<close> return is a dict of string
  literals, the integer 1 and the two header strings of the request, decoded by the
  framework itself; the framework writes such a value as it is.
\<close>

definition as_it_is :: renderer where
  "as_it_is v = Inr v"

definition root_get :: "filestore \<Rightarrow> (exn + json) \<times> filestore" where
  "root_get fs =
     (Inr (JObject
        [(''message'', JStr ''Welcome to Football Analytics API''),
         (''version'', JStr ''1.0.0''),
         (''docs'', JStr ''/docs'')]), fs)"

definition health_check :: "filestore \<Rightarrow> (exn + json) \<times> filestore" where
  "health_check fs = (Inr (JObject [(''status'', JStr ''healthy'')]), fs)"

text \<open>
  The requests the application has a route for: the path is the router's prefix in
  \<open>main.py\<close> followed by the path of the handler's decorator. \<open>root\<close> (here
  \<open>root_get\<close>, since \<open>root\<close> is the n-th root of the library) and
  \<open>health_check\<close> declare no response model, so nothing is checked for them. The upload
  route requires the multipart field \<open>video\<close>; a POST without it is answered by the
  framework before the handler runs and is not among these requests.
\<close>

datatype request =
    GET_root
  | GET_health
  | GET_api_tactical_heatmap
  | GET_api_tactical_pass_network
  | GET_api_tactical_tracking
  | GET_api_decisions_offside
  | GET_api_decisions_fouls
  | GET_api_decisions_goal_prediction
  | POST_api_upload_video UploadFile

fun app :: "decoder \<Rightarrow> renderer \<Rightarrow> request \<Rightarrow> filestore \<Rightarrow> response \<times> filestore" where
  "app json_load render GET_root fs = route as_it_is (\<lambda>v. True) root_get fs"
| "app json_load render GET_health fs = route as_it_is (\<lambda>v. True) health_check fs"
| "app json_load render GET_api_tactical_heatmap fs =
     route render List_Dict_str_Any (get_heatmap json_load) fs"
| "app json_load render GET_api_tactical_pass_network fs =
     route render Dict_str_Any (get_pass_network json_load) fs"
| "app json_load render GET_api_tactical_tracking fs =
     route render List_Dict_str_Any (get_tracking json_load) fs"
| "app json_load render GET_api_decisions_offside fs =
     route render List_Dict_str_Any (get_offside json_load) fs"
| "app json_load render GET_api_decisions_fouls fs =
     route render List_Dict_str_Any (get_fouls json_load) fs"
| "app json_load render GET_api_decisions_goal_prediction fs =
     route render Dict_str_Any (get_goal_prediction json_load) fs"
| "app json_load render (POST_api_upload_video video) fs =
     route as_it_is Dict_str_Any (upload_video video) fs"

text \<open>
  The six data endpoints, each with the fixture it reads and the response model it is
  registered with.
\<close>

datatype endpoint = Heatmap | PassNetwork | Tracking | Offside | Fouls | GoalPrediction

fun request_of :: "endpoint \<Rightarrow> request" where
  "request_of Heatmap = GET_api_tactical_heatmap"
| "request_of PassNetwork = GET_api_tactical_pass_network"
| "request_of Tracking = GET_api_tactical_tracking"
| "request_of Offside = GET_api_decisions_offside"
| "request_of Fouls = GET_api_decisions_fouls"
| "request_of GoalPrediction = GET_api_decisions_goal_prediction"

fun handler :: "endpoint \<Rightarrow> decoder \<Rightarrow> filestore \<Rightarrow> (exn + json) \<times> filestore" where
  "handler Heatmap = get_heatmap"
| "handler PassNetwork = get_pass_network"
| "handler Tracking = get_tracking"
| "handler Offside = get_offside"
| "handler Fouls = get_fouls"
| "handler GoalPrediction = get_goal_prediction"

fun fixture :: "endpoint \<Rightarrow> path" where
  "fixture Heatmap = [''dummy_data'', ''heatmap.json'']"
| "fixture PassNetwork = [''dummy_data'', ''pass_network.json'']"
| "fixture Tracking = [''dummy_data'', ''tracking.json'']"
| "fixture Offside = [''dummy_data'', ''offside.json'']"
| "fixture Fouls = [''dummy_data'', ''fouls.json'']"
| "fixture GoalPrediction = [''dummy_data'', ''goal_prediction.json'']"

fun response_model :: "endpoint \<Rightarrow> json \<Rightarrow> bool" where
  "response_model Heatmap = List_Dict_str_Any"
| "response_model PassNetwork = Dict_str_Any"
| "response_model Tracking = List_Dict_str_Any"
| "response_model Offside = List_Dict_str_Any"
| "response_model Fouls = List_Dict_str_Any"
| "response_model GoalPrediction = Dict_str_Any"

section \<open>The entity schemas\<close>

text \<open>
  A pydantic model is validated from a dict: each declared field is looked up, its raw
  value is converted to the annotated type, and the converted value is checked against
  the \<open>ge\<close> and \<open>le\<close> of its \<open>Field\<close>. Which raw values convert is pydantic's matter
  (numeric strings, booleans for numbers and so on, depending on its mode), so the
  conversions are a parameter; \<open>plain\<close> is the instance that admits exactly a JSON
  value of the annotated type, with a finite float or an \<open>int\<close> admitted for a
  \<open>float\<close>, and every mode of pydantic converts those values the same way. A converted
  float is the real number of a finite float: of the floats that are not finite, none
  passes an \<open>le\<close> and only the positive infinity passes a \<open>ge\<close>. Keys that no field declares are
  ignored. Pydantic reports all failing fields at once; here the first one in declaration
  order is reported, which leaves the set of accepted inputs as it is.
\<close>

record conversions =
  to_int :: "json \<Rightarrow> int option"
  to_float :: "json \<Rightarrow> real option"
  to_bool :: "json \<Rightarrow> bool option"
  to_str :: "json \<Rightarrow> string option"

definition plain :: conversions where
  "plain =
     \<lparr>to_int = (\<lambda>v. case v of JInt n \<Rightarrow> Some n | _ \<Rightarrow> None),
      to_float = (\<lambda>v. case v of JInt n \<Rightarrow> Some (real_of_int n) | JFloat r \<Rightarrow> Some r | _ \<Rightarrow> None),
      to_bool = (\<lambda>v. case v of JBool b \<Rightarrow> Some b | _ \<Rightarrow> None),
      to_str = (\<lambda>v. case v of JStr s \<Rightarrow> Some s | _ \<Rightarrow> None)\<rparr>"

datatype validation_error =
    missing string
  | wrong_type string
  | out_of_range string
  | dict_type
  | list_type string

definition in_bounds :: "'a::linorder option \<Rightarrow> 'a option \<Rightarrow> 'a \<Rightarrow> bool" where
  "in_bounds ge le v =
     ((case ge of None \<Rightarrow> True | Some lo \<Rightarrow> lo \<le> v) \<and>
      (case le of None \<Rightarrow> True | Some hi \<Rightarrow> v \<le> hi))"

definition Field ::
  "string \<Rightarrow> json option \<Rightarrow> (json \<Rightarrow> 'a option) \<Rightarrow> ('a \<Rightarrow> bool) \<Rightarrow> validation_error + 'a" where
  "Field name raw convert constraint =
     (case raw of
        None \<Rightarrow> Inl (missing name)
      | Some r \<Rightarrow>
          (case convert r of
             None \<Rightarrow> Inl (wrong_type name)
           | Some v \<Rightarrow> if constraint v then Inr v else Inl (out_of_range name)))"

definition Field_default_None ::
  "string \<Rightarrow> json option \<Rightarrow> (json \<Rightarrow> 'a option) \<Rightarrow> ('a \<Rightarrow> bool) \<Rightarrow>
     validation_error + 'a option" where
  "Field_default_None name raw convert constraint =
     (case raw of
        None \<Rightarrow> Inr None
      | Some JNull \<Rightarrow> Inr None
      | Some r \<Rightarrow>
          (case convert r of
             None \<Rightarrow> Inl (wrong_type name)
           | Some v \<Rightarrow> if constraint v then Inr (Some v) else Inl (out_of_range name)))"

definition and_then :: "'e + 'a \<Rightarrow> ('a \<Rightarrow> 'e + 'b) \<Rightarrow> 'e + 'b" where
  "and_then r f = (case r of Inl e \<Rightarrow> Inl e | Inr v \<Rightarrow> f v)"

fun validate_each :: "('a \<Rightarrow> 'e + 'b) \<Rightarrow> 'a list \<Rightarrow> 'e + 'b list" where
  "validate_each f [] = Inr []"
| "validate_each f (v # vs) =
     and_then (f v) (\<lambda>w. and_then (validate_each f vs) (\<lambda>ws. Inr (w # ws)))"

subsection \<open>schemas/tactical.py\<close>

record HeatmapPoint =
  x :: int
  y :: int
  intensity :: real

definition HeatmapPoint_validate :: "conversions \<Rightarrow> json \<Rightarrow> validation_error + HeatmapPoint" where
  "HeatmapPoint_validate c v =
     (case v of
        JObject d \<Rightarrow>
          and_then (Field ''x'' (map_of d ''x'') (to_int c) (in_bounds (Some 0) (Some 100))) (\<lambda>vx.
          and_then (Field ''y'' (map_of d ''y'') (to_int c) (in_bounds (Some 0) (Some 100))) (\<lambda>vy.
          and_then (Field ''intensity'' (map_of d ''intensity'') (to_float c)
                      (in_bounds (Some 0) (Some 1))) (\<lambda>vi.
          Inr \<lparr>HeatmapPoint.x = vx, y = vy, intensity = vi\<rparr>)))
      | _ \<Rightarrow> Inl dict_type)"

text \<open>
  \<open>from_player\<close> and \<open>to_player\<close> carry the aliases \<open>from\<close> and \<open>to\<close>, and
  \<open>populate_by_name\<close> lets the field's own name stand in where the alias is absent.
\<close>

record PassConnection =
  from_player :: int
  to_player :: int
  count :: int

definition by_alias_or_name :: "(string \<times> json) list \<Rightarrow> string \<Rightarrow> string \<Rightarrow> json option" where
  "by_alias_or_name d alias name =
     (case map_of d alias of Some r \<Rightarrow> Some r | None \<Rightarrow> map_of d name)"

definition PassConnection_validate ::
  "conversions \<Rightarrow> json \<Rightarrow> validation_error + PassConnection" where
  "PassConnection_validate c v =
     (case v of
        JObject d \<Rightarrow>
          and_then (Field ''from'' (by_alias_or_name d ''from'' ''from_player'') (to_int c)
                      (in_bounds None None)) (\<lambda>vf.
          and_then (Field ''to'' (by_alias_or_name d ''to'' ''to_player'') (to_int c)
                      (in_bounds None None)) (\<lambda>vt.
          and_then (Field ''count'' (map_of d ''count'') (to_int c) (in_bounds (Some 0) None)) (\<lambda>vc.
          Inr \<lparr>from_player = vf, to_player = vt, count = vc\<rparr>)))
      | _ \<Rightarrow> Inl dict_type)"

record PassNetwork =
  passes :: "PassConnection list"

definition PassNetwork_validate :: "conversions \<Rightarrow> json \<Rightarrow> validation_error + PassNetwork" where
  "PassNetwork_validate c v =
     (case v of
        JObject d \<Rightarrow>
          (case map_of d ''passes'' of
             None \<Rightarrow> Inl (missing ''passes'')
           | Some (JArray vs) \<Rightarrow>
               and_then (validate_each (PassConnection_validate c) vs) (\<lambda>ps.
               Inr \<lparr>passes = ps\<rparr>)
           | Some _ \<Rightarrow> Inl (list_type ''passes''))
      | _ \<Rightarrow> Inl dict_type)"

record TrackingPoint =
  player_id :: int
  timestamp :: real
  x :: real
  y :: real
  speed :: "real option"

definition TrackingPoint_validate ::
  "conversions \<Rightarrow> json \<Rightarrow> validation_error + TrackingPoint" where
  "TrackingPoint_validate c v =
     (case v of
        JObject d \<Rightarrow>
          and_then (Field ''player_id'' (map_of d ''player_id'') (to_int c)
                      (in_bounds None None)) (\<lambda>vp.
          and_then (Field ''timestamp'' (map_of d ''timestamp'') (to_float c)
                      (in_bounds (Some 0) None)) (\<lambda>vt.
          and_then (Field ''x'' (map_of d ''x'') (to_float c) (in_bounds (Some 0) (Some 100))) (\<lambda>vx.
          and_then (Field ''y'' (map_of d ''y'') (to_float c) (in_bounds (Some 0) (Some 100))) (\<lambda>vy.
          and_then (Field_default_None ''speed'' (map_of d ''speed'') (to_float c)
                      (in_bounds (Some 0) None)) (\<lambda>vs.
          Inr \<lparr>TrackingPoint.player_id = vp, timestamp = vt, x = vx, y = vy, speed = vs\<rparr>)))))
      | _ \<Rightarrow> Inl dict_type)"

subsection \<open>schemas/decisions.py\<close>

datatype SeverityLevel = MINOR | MAJOR | YELLOW_CARD | RED_CARD

fun SeverityLevel_value :: "SeverityLevel \<Rightarrow> string" where
  "SeverityLevel_value MINOR = ''minor''"
| "SeverityLevel_value MAJOR = ''major''"
| "SeverityLevel_value YELLOW_CARD = ''yellow_card''"
| "SeverityLevel_value RED_CARD = ''red_card''"

definition SeverityLevel_values :: "string list" where
  "SeverityLevel_values = map SeverityLevel_value [MINOR, MAJOR, YELLOW_CARD, RED_CARD]"

record OffsideEvent =
  player_id :: int
  timestamp :: real
  x :: real
  y :: real
  is_correct :: bool

definition OffsideEvent_validate ::
  "conversions \<Rightarrow> json \<Rightarrow> validation_error + OffsideEvent" where
  "OffsideEvent_validate c v =
     (case v of
        JObject d \<Rightarrow>
          and_then (Field ''player_id'' (map_of d ''player_id'') (to_int c)
                      (in_bounds None None)) (\<lambda>vp.
          and_then (Field ''timestamp'' (map_of d ''timestamp'') (to_float c)
                      (in_bounds (Some 0) None)) (\<lambda>vt.
          and_then (Field ''x'' (map_of d ''x'') (to_float c) (in_bounds (Some 0) (Some 100))) (\<lambda>vx.
          and_then (Field ''y'' (map_of d ''y'') (to_float c) (in_bounds (Some 0) (Some 100))) (\<lambda>vy.
          and_then (Field ''is_correct'' (map_of d ''is_correct'') (to_bool c) (\<lambda>b. True)) (\<lambda>vc.
          Inr \<lparr>OffsideEvent.player_id = vp, timestamp = vt, x = vx, y = vy,
               is_correct = vc\<rparr>)))))
      | _ \<Rightarrow> Inl dict_type)"

record FoulEvent =
  foul_id :: int
  player_committed :: int
  player_suffered :: int
  timestamp :: real
  x :: real
  y :: real
  severity :: string
  is_correct :: bool

definition FoulEvent_validate :: "conversions \<Rightarrow> json \<Rightarrow> validation_error + FoulEvent" where
  "FoulEvent_validate c v =
     (case v of
        JObject d \<Rightarrow>
          and_then (Field ''foul_id'' (map_of d ''foul_id'') (to_int c) (in_bounds None None)) (\<lambda>vi.
          and_then (Field ''player_committed'' (map_of d ''player_committed'') (to_int c)
                      (in_bounds None None)) (\<lambda>vpc.
          and_then (Field ''player_suffered'' (map_of d ''player_suffered'') (to_int c)
                      (in_bounds None None)) (\<lambda>vps.
          and_then (Field ''timestamp'' (map_of d ''timestamp'') (to_float c)
                      (in_bounds (Some 0) None)) (\<lambda>vt.
          and_then (Field ''x'' (map_of d ''x'') (to_float c) (in_bounds (Some 0) (Some 100))) (\<lambda>vx.
          and_then (Field ''y'' (map_of d ''y'') (to_float c) (in_bounds (Some 0) (Some 100))) (\<lambda>vy.
          and_then (Field ''severity'' (map_of d ''severity'') (to_str c) (\<lambda>s. True)) (\<lambda>vs.
          and_then (Field ''is_correct'' (map_of d ''is_correct'') (to_bool c) (\<lambda>b. True)) (\<lambda>vc.
          Inr \<lparr>foul_id = vi, player_committed = vpc, player_suffered = vps, timestamp = vt,
               x = vx, y = vy, severity = vs, is_correct = vc\<rparr>))))))))
      | _ \<Rightarrow> Inl dict_type)"

record GoalPrediction =
  shot_x :: real
  shot_y :: real
  xG :: real
  is_goal :: bool

definition GoalPrediction_validate ::
  "conversions \<Rightarrow> json \<Rightarrow> validation_error + GoalPrediction" where
  "GoalPrediction_validate c v =
     (case v of
        JObject d \<Rightarrow>
          and_then (Field ''shot_x'' (map_of d ''shot_x'') (to_float c)
                      (in_bounds (Some 0) (Some 100))) (\<lambda>vx.
          and_then (Field ''shot_y'' (map_of d ''shot_y'') (to_float c)
                      (in_bounds (Some 0) (Some 100))) (\<lambda>vy.
          and_then (Field ''xG'' (map_of d ''xG'') (to_float c) (in_bounds (Some 0) (Some 1))) (\<lambda>vg.
          and_then (Field ''is_goal'' (map_of d ''is_goal'') (to_bool c) (\<lambda>b. True)) (\<lambda>vb.
          Inr \<lparr>shot_x = vx, shot_y = vy, xG = vg, is_goal = vb\<rparr>))))
      | _ \<Rightarrow> Inl dict_type)"

section \<open>Example fixtures\<close>

text \<open>
  Concrete inputs for evaluating the definitions. \<open>example_json_load\<close> agrees with
  \<open>json.load\<close> on the contents used below: the four texts it lists decode as shown; the
  single byte \<open>0xFF\<close> is not UTF-8, and \<open>json.load\<close> raises \<open>UnicodeDecodeError\<close> on it;
  a hundred thousand \<open>[\<close> followed by as many \<open>]\<close> are valid JSON, and \<open>json.load\<close>
  raises \<open>RecursionError\<close> on them; the truncated text \<open>[{"x": 20\<close> is one on which it
  raises \<open>json.JSONDecodeError\<close>. \<open>example_render\<close> agrees with the framework on
  the three values it lists: the first two are written as they are, and the float that is
  not a number is written as \<open>null\<close>.
\<close>

definition good_point :: json where
  "good_point = JObject [(''x'', JInt 20), (''y'', JInt 50), (''intensity'', JFloat 0.7)]"

definition bad_point :: json where
  "bad_point = JObject [(''x'', JInt 500), (''y'', JInt 50), (''intensity'', JFloat 0.7)]"

definition nested_arrays :: string where
  "nested_arrays = replicate 100000 (CHR ''['') @ replicate 100000 (CHR '']'')"

definition example_json_load :: decoder where
  \<open>example_json_load content =
     (case map_of
             [(''[{"x": 20, "y": 50, "intensity": 0.7}]'', JArray [good_point]),
              (''[{"x": 500, "y": 50, "intensity": 0.7}]'', JArray [bad_point]),
              (''[{"x": NaN}]'', JArray [JObject [(''x'', JNaN)]]),
              (''42'', JInt 42)] content of
        Some data \<Rightarrow> Inr data
      | None \<Rightarrow>
          if content = [CHR 0xFF] then Inl UnicodeDecodeError
          else if content = nested_arrays then Inl RecursionError
          else Inl JSONDecodeError)\<close>

definition example_render :: renderer where
  "example_render v =
     (case map_of
             [(JArray [good_point], JArray [good_point]),
              (JArray [bad_point], JArray [bad_point]),
              (JArray [JObject [(''x'', JNaN)]], JArray [JObject [(''x'', JNull)]])] v of
        Some body \<Rightarrow> Inr body
      | None \<Rightarrow> Inl ValueError)"

definition store_with :: "path \<Rightarrow> node \<Rightarrow> filestore" where
  "store_with p n = (\<lambda>q. if q = p then n else Missing)"

definition empty_store :: filestore where
  "empty_store = (\<lambda>q. Missing)"

definition good_store :: filestore where
  \<open>good_store =
     store_with [''dummy_data'', ''heatmap.json'']
       (File ''[{"x": 20, "y": 50, "intensity": 0.7}]'')\<close>

definition bad_store :: filestore where
  \<open>bad_store =
     store_with [''dummy_data'', ''heatmap.json'']
       (File ''[{"x": 500, "y": 50, "intensity": 0.7}]'')\<close>

definition nan_store :: filestore where
  \<open>nan_store = store_with [''dummy_data'', ''heatmap.json''] (File ''[{"x": NaN}]'')\<close>






definition mp4_upload :: UploadFile where
  "mp4_upload = \<lparr>filename = Some ''match.mp4'', content_type = Some ''video/mp4''\<rparr>"

definition png_upload :: UploadFile where
  "png_upload = \<lparr>filename = Some ''pitch.png'', content_type = Some ''image/png''\<rparr>"

definition untyped_upload :: UploadFile where
  "untyped_upload = \<lparr>filename = Some ''match.mp4'', content_type = None\<rparr>"

text \<open>The examples the schemas give in their \<open>json_schema_extra\<close>.\<close>

definition pass_example :: json where
  "pass_example = JObject [(''from'', JInt 8), (''to'', JInt 10), (''count'', JInt 12)]"

definition network_example :: json where
  "network_example =
     JObject [(''passes'',
       JArray [pass_example,
               JObject [(''from'', JInt 6), (''to'', JInt 22), (''count'', JInt 5)]])]"

definition tracking_example :: json where
  "tracking_example =
     JObject [(''player_id'', JInt 10), (''timestamp'', JFloat 120.5), (''x'', JFloat 45.2),
              (''y'', JFloat 30.8), (''speed'', JFloat 5.2)]"

definition offside_example :: json where
  "offside_example =
     JObject [(''player_id'', JInt 9), (''timestamp'', JFloat 245.3), (''x'', JFloat 85.2),
              (''y'', JFloat 45.0), (''is_correct'', JBool True)]"

definition foul_example :: "string \<Rightarrow> json" where
  "foul_example level =
     JObject [(''foul_id'', JInt 1), (''player_committed'', JInt 5),
              (''player_suffered'', JInt 10), (''timestamp'', JFloat 180.5),
              (''x'', JFloat 50.0), (''y'', JFloat 30.0), (''severity'', JStr level),
              (''is_correct'', JBool True)]"

definition goal_example :: json where
  "goal_example =
     JObject [(''shot_x'', JInt 30), (''shot_y'', JInt 70), (''xG'', JFloat 0.45),
              (''is_goal'', JBool False)]"

section \<open>Properties of the loader\<close>

lemma tactical_dir: "tactical_DUMMY_DATA_DIR = [''dummy_data'']"
  by (simp add: tactical_DUMMY_DATA_DIR_def tactical_BASE_DIR_def tactical_file_def
      parent_def joinpath_def)

lemma decisions_dir: "decisions_DUMMY_DATA_DIR = [''dummy_data'']"
  by (simp add: decisions_DUMMY_DATA_DIR_def decisions_BASE_DIR_def decisions_file_def
      parent_def joinpath_def)

text \<open>
  The loader in one piece: what it returns for each thing the store may hold at the
  fixture's path, and the store it returns.
\<close>

lemma tactical_load_json_file_eq:
  "tactical_load_json_file json_load name fs =
     ((case fs [''dummy_data'', name] of
         Missing \<Rightarrow> Inl (HTTPException 404 (''Data file '' @ name @ '' not found''))
       | File content \<Rightarrow>
           (case json_load content of
              Inl e \<Rightarrow>
                if e = JSONDecodeError
                then Inl (HTTPException 500 (''Error parsing '' @ name))
                else Inl (Raised e)
            | Inr data \<Rightarrow> Inr data)
       | Directory \<Rightarrow> Inl (Raised IsADirectoryError)
       | Unreadable \<Rightarrow> Inl (Raised PermissionError)
       | Inaccessible e \<Rightarrow> Inl (Raised e)), fs)"
  unfolding tactical_load_json_file_def tactical_dir
  by (simp add: joinpath_def path_exists_def open_read_def split: node.splits sum.splits)

lemma decisions_load_json_file_eq:
  "decisions_load_json_file json_load name fs =
     ((case fs [''dummy_data'', name] of
         Missing \<Rightarrow> Inl (HTTPException 404 (''Data file '' @ name @ '' not found''))
       | File content \<Rightarrow>
           (case json_load content of
              Inl e \<Rightarrow>
                if e = JSONDecodeError
                then Inl (HTTPException 500 (''Error parsing '' @ name))
                else Inl (Raised e)
            | Inr data \<Rightarrow> Inr data)
       | Directory \<Rightarrow> Inl (Raised IsADirectoryError)
       | Unreadable \<Rightarrow> Inl (Raised PermissionError)
       | Inaccessible e \<Rightarrow> Inl (Raised e)), fs)"
  unfolding decisions_load_json_file_def decisions_dir
  by (simp add: joinpath_def path_exists_def open_read_def split: node.splits sum.splits)


section \<open>Properties of the handlers and routes\<close>

lemma handler_outcome:
  "handler e json_load fs =
     ((case fs (fixture e) of
         Missing \<Rightarrow> Inl (HTTPException 404 (''Data file '' @ last (fixture e) @ '' not found''))
       | File content \<Rightarrow>
           (case json_load content of
              Inl err \<Rightarrow>
                if err = JSONDecodeError
                then Inl (HTTPException 500 (''Error parsing '' @ last (fixture e)))
                else Inl (Raised err)
            | Inr data \<Rightarrow> Inr data)
       | Directory \<Rightarrow> Inl (Raised IsADirectoryError)
       | Unreadable \<Rightarrow> Inl (Raised PermissionError)
       | Inaccessible err \<Rightarrow> Inl (Raised err)), fs)"
  by (cases e; hypsubst)
    (simp_all add: get_heatmap_def get_pass_network_def get_tracking_def get_offside_def
      get_fouls_def get_goal_prediction_def tactical_load_json_file_eq
      decisions_load_json_file_eq cong: node.case_cong sum.case_cong if_cong)

lemma app_data_endpoint:
  "app json_load render (request_of e) fs =
     (respond render (response_model e) (fst (handler e json_load fs)), fs)"
proof -
  have "snd (handler e json_load fs) = fs"
    by (simp add: handler_outcome)
  then show ?thesis
    by (cases e) (auto simp add: route_def split: prod.splits)
qed

lemma upload_video_eq:
  "upload_video video fs =
     (if (\<exists>ct. content_type video = Some ct \<and> startswith ct ''video/'')
      then Inr (JObject
                  [(''message'', JStr ''Video uploaded successfully''),
                   (''video_id'', JInt 1),
                   (''filename'', (case filename video of None \<Rightarrow> JNull | Some n \<Rightarrow> JStr n)),
                   (''content_type'', JStr (the (content_type video)))])
      else Inl (HTTPException 400 ''File must be a video''), fs)"
  by (auto simp add: upload_video_def startswith_def split: option.splits)

lemma app_upload_video:
  "app json_load render (POST_api_upload_video video) fs =
     (respond as_it_is Dict_str_Any (fst (upload_video video fs)), fs)"
  by (simp add: route_def upload_video_eq)

section \<open>Properties of the schemas\<close>

lemma and_then_Inr: "(and_then r f = Inr w) = (\<exists>v. r = Inr v \<and> f v = Inr w)"
  by (cases r) (simp_all add: and_then_def)

lemma Field_Inr:
  "Field name raw convert constraint = Inr v \<Longrightarrow> constraint v"
  by (auto simp add: Field_def split: option.splits if_splits)

lemma Field_default_None_Inr:
  "Field_default_None name raw convert constraint = Inr (Some v) \<Longrightarrow> constraint v"
  by (auto simp add: Field_default_None_def split: option.splits if_splits json.splits)

lemma validate_each_Inr:
  assumes "validate_each f vs = Inr ws"
    and "\<And>v w. f v = Inr w \<Longrightarrow> P w"
  shows "list_all P ws"
  using assms(1)
proof (induction vs arbitrary: ws)
  case Nil
  then show ?case by simp
next
  case (Cons v vs)
  then obtain w ws' where "f v = Inr w" "validate_each f vs = Inr ws'" "ws = w # ws'"
    by (auto simp add: and_then_Inr)
  with Cons.IH assms(2) show ?case
    by simp
qed

lemma HeatmapPoint_bounds:
  assumes "HeatmapPoint_validate c v = Inr p"
  shows "0 \<le> HeatmapPoint.x p \<and> HeatmapPoint.x p \<le> 100 \<and>
         0 \<le> HeatmapPoint.y p \<and> HeatmapPoint.y p \<le> 100 \<and>
         0 \<le> intensity p \<and> intensity p \<le> 1"
proof -
  from assms obtain d where d: "v = JObject d"
    by (cases v) (simp_all add: HeatmapPoint_validate_def)
  from assms d obtain vx vy vi where
    f: "Field ''x'' (map_of d ''x'') (to_int c) (in_bounds (Some 0) (Some 100)) = Inr vx"
       "Field ''y'' (map_of d ''y'') (to_int c) (in_bounds (Some 0) (Some 100)) = Inr vy"
       "Field ''intensity'' (map_of d ''intensity'') (to_float c) (in_bounds (Some 0) (Some 1)) = Inr vi"
    and p: "p = \<lparr>HeatmapPoint.x = vx, y = vy, intensity = vi\<rparr>"
    by (auto simp add: HeatmapPoint_validate_def and_then_Inr)
  from f have "in_bounds (Some 0) (Some 100) vx" "in_bounds (Some 0) (Some 100) vy"
    "in_bounds (Some 0) (Some 1) vi"
    by (auto dest: Field_Inr)
  with p show ?thesis
    by (simp add: in_bounds_def)
qed

lemma PassConnection_bounds:
  assumes "PassConnection_validate c v = Inr p"
  shows "0 \<le> count p"
proof -
  from assms obtain d where d: "v = JObject d"
    by (cases v) (simp_all add: PassConnection_validate_def)
  from assms d obtain vc where
    f: "Field ''count'' (map_of d ''count'') (to_int c) (in_bounds (Some 0) None) = Inr vc"
    and p: "count p = vc"
    by (auto simp add: PassConnection_validate_def and_then_Inr)
  from f have "in_bounds (Some 0) None vc"
    by (rule Field_Inr)
  with p show ?thesis
    by (simp add: in_bounds_def)
qed

lemma PassNetwork_bounds:
  assumes "PassNetwork_validate c v = Inr n"
  shows "list_all (\<lambda>p. 0 \<le> count p) (passes n)"
proof -
  from assms obtain d where d: "v = JObject d"
    by (cases v) (simp_all add: PassNetwork_validate_def)
  from assms d obtain vs ps where
    each: "validate_each (PassConnection_validate c) vs = Inr ps" and n: "passes n = ps"
    by (auto simp add: PassNetwork_validate_def and_then_Inr split: option.splits json.splits)
  from each have "list_all (\<lambda>p. 0 \<le> count p) ps"
    by (rule validate_each_Inr) (rule PassConnection_bounds)
  with n show ?thesis
    by simp
qed

lemma TrackingPoint_bounds:
  assumes "TrackingPoint_validate c v = Inr p"
  shows "0 \<le> TrackingPoint.timestamp p \<and>
         0 \<le> TrackingPoint.x p \<and> TrackingPoint.x p \<le> 100 \<and>
         0 \<le> TrackingPoint.y p \<and> TrackingPoint.y p \<le> 100 \<and>
         (case speed p of None \<Rightarrow> True | Some s \<Rightarrow> 0 \<le> s)"
proof -
  from assms obtain d where d: "v = JObject d"
    by (cases v) (simp_all add: TrackingPoint_validate_def)
  from assms d obtain vp vt vx vy vs where
    f: "Field ''timestamp'' (map_of d ''timestamp'') (to_float c) (in_bounds (Some 0) None) = Inr vt"
       "Field ''x'' (map_of d ''x'') (to_float c) (in_bounds (Some 0) (Some 100)) = Inr vx"
       "Field ''y'' (map_of d ''y'') (to_float c) (in_bounds (Some 0) (Some 100)) = Inr vy"
       "Field_default_None ''speed'' (map_of d ''speed'') (to_float c) (in_bounds (Some 0) None)
          = Inr vs"
    and p: "p = \<lparr>TrackingPoint.player_id = vp, timestamp = vt, x = vx, y = vy, speed = vs\<rparr>"
    by (auto simp add: TrackingPoint_validate_def and_then_Inr)
  from f(1-3) have b: "in_bounds (Some 0) None vt" "in_bounds (Some 0) (Some 100) vx"
    "in_bounds (Some 0) (Some 100) vy"
    by (auto dest: Field_Inr)
  have "case vs of None \<Rightarrow> True | Some s \<Rightarrow> 0 \<le> s"
  proof (cases vs)
    case None
    then show ?thesis by simp
  next
    case (Some s)
    with f(4) have "in_bounds (Some 0) None s"
      by (auto dest: Field_default_None_Inr)
    with Some show ?thesis
      by (simp add: in_bounds_def)
  qed
  with b p show ?thesis
    by (simp add: in_bounds_def)
qed

lemma OffsideEvent_bounds:
  assumes "OffsideEvent_validate c v = Inr p"
  shows "0 \<le> OffsideEvent.timestamp p \<and>
         0 \<le> OffsideEvent.x p \<and> OffsideEvent.x p \<le> 100 \<and>
         0 \<le> OffsideEvent.y p \<and> OffsideEvent.y p \<le> 100"
proof -
  from assms obtain d where d: "v = JObject d"
    by (cases v) (simp_all add: OffsideEvent_validate_def)
  from assms d obtain vp vt vx vy vc where
    f: "Field ''timestamp'' (map_of d ''timestamp'') (to_float c) (in_bounds (Some 0) None) = Inr vt"
       "Field ''x'' (map_of d ''x'') (to_float c) (in_bounds (Some 0) (Some 100)) = Inr vx"
       "Field ''y'' (map_of d ''y'') (to_float c) (in_bounds (Some 0) (Some 100)) = Inr vy"
    and p: "p = \<lparr>OffsideEvent.player_id = vp, timestamp = vt, x = vx, y = vy, is_correct = vc\<rparr>"
    by (auto simp add: OffsideEvent_validate_def and_then_Inr)
  from f have "in_bounds (Some 0) None vt" "in_bounds (Some 0) (Some 100) vx"
    "in_bounds (Some 0) (Some 100) vy"
    by (auto dest: Field_Inr)
  with p show ?thesis
    by (simp add: in_bounds_def)
qed

lemma FoulEvent_bounds:
  assumes "FoulEvent_validate c v = Inr p"
  shows "0 \<le> FoulEvent.timestamp p \<and>
         0 \<le> FoulEvent.x p \<and> FoulEvent.x p \<le> 100 \<and>
         0 \<le> FoulEvent.y p \<and> FoulEvent.y p \<le> 100"
proof -
  from assms obtain d where d: "v = JObject d"
    by (cases v) (simp_all add: FoulEvent_validate_def)
  from assms d obtain vi vpc vps vt vx vy vs vc where
    f: "Field ''timestamp'' (map_of d ''timestamp'') (to_float c) (in_bounds (Some 0) None) = Inr vt"
       "Field ''x'' (map_of d ''x'') (to_float c) (in_bounds (Some 0) (Some 100)) = Inr vx"
       "Field ''y'' (map_of d ''y'') (to_float c) (in_bounds (Some 0) (Some 100)) = Inr vy"
    and p: "p = \<lparr>foul_id = vi, player_committed = vpc, player_suffered = vps, timestamp = vt,
               x = vx, y = vy, severity = vs, is_correct = vc\<rparr>"
    by (auto simp add: FoulEvent_validate_def and_then_Inr)
  from f have "in_bounds (Some 0) None vt" "in_bounds (Some 0) (Some 100) vx"
    "in_bounds (Some 0) (Some 100) vy"
    by (auto dest: Field_Inr)
  with p show ?thesis
    by (simp add: in_bounds_def)
qed

lemma GoalPrediction_bounds:
  assumes "GoalPrediction_validate c v = Inr p"
  shows "0 \<le> shot_x p \<and> shot_x p \<le> 100 \<and> 0 \<le> shot_y p \<and> shot_y p \<le> 100 \<and>
         0 \<le> xG p \<and> xG p \<le> 1"
proof -
  from assms obtain d where d: "v = JObject d"
    by (cases v) (simp_all add: GoalPrediction_validate_def)
  from assms d obtain vx vy vg vb where
    f: "Field ''shot_x'' (map_of d ''shot_x'') (to_float c) (in_bounds (Some 0) (Some 100)) = Inr vx"
       "Field ''shot_y'' (map_of d ''shot_y'') (to_float c) (in_bounds (Some 0) (Some 100)) = Inr vy"
       "Field ''xG'' (map_of d ''xG'') (to_float c) (in_bounds (Some 0) (Some 1)) = Inr vg"
    and p: "p = \<lparr>shot_x = vx, shot_y = vy, xG = vg, is_goal = vb\<rparr>"
    by (auto simp add: GoalPrediction_validate_def and_then_Inr)
  from f have "in_bounds (Some 0) (Some 100) vx" "in_bounds (Some 0) (Some 100) vy"
    "in_bounds (Some 0) (Some 1) vg"
    by (auto dest: Field_Inr)
  with p show ?thesis
    by (simp add: in_bounds_def)
qed

lemma FoulEvent_severity_unconstrained:
  "FoulEvent_validate plain (foul_example level) =
     Inr \<lparr>foul_id = 1, player_committed = 5, player_suffered = 10, timestamp = 180.5,
          x = 50, y = 30, severity = level, is_correct = True\<rparr>"
  by (simp add: FoulEvent_validate_def foul_example_def plain_def Field_def and_then_def
      in_bounds_def)




text \<open>
  C10. The loader of \<open>routes/tactical.py\<close> and the loader of \<open>routes/decisions.py\<close> agree
  on every decoder, file name and file store: the same decoded value or the same
  exception with the same status and detail, and the same store afterwards. Both modules
  sit in \<open>routes/\<close>, so both resolve \<open>dummy_data\<close> beside that directory.
\<close>

theorem load_json_file_modules_agree:
  "tactical_load_json_file json_load name fs = decisions_load_json_file json_load name fs"
proof -
  have "tactical_DUMMY_DATA_DIR = decisions_DUMMY_DATA_DIR"
    by (simp add: tactical_dir decisions_dir)
  then show ?thesis
    by (simp add: tactical_load_json_file_def decisions_load_json_file_def)
qed

text \<open>
  C8. No request changes the file store: after any of the nine routes has answered, the
  store is the one the request found, and each handler called on its own leaves it as it
  was as well. The upload handler in particular writes nothing.
\<close>

theorem no_request_changes_the_store:
  "snd (app json_load render req fs) = fs \<and>
   snd (handler e json_load fs) = fs \<and>
   snd (upload_video video fs) = fs"
proof -
  have "snd (app json_load render req fs) = fs"
    by (cases req)
      (simp_all add: route_def root_get_def health_check_def upload_video_eq
        get_heatmap_def get_pass_network_def get_tracking_def get_offside_def
        get_fouls_def get_goal_prediction_def tactical_load_json_file_eq
        decisions_load_json_file_eq split: prod.splits)
  then show ?thesis
    by (simp add: handler_outcome upload_video_eq)
qed

theorem no_request_changes_the_store_witness:
  "snd (app example_json_load example_render GET_api_tactical_heatmap good_store) = good_store \<and>
   snd (app example_json_load example_render (POST_api_upload_video mp4_upload) good_store)
     = good_store"
  using no_request_changes_the_store
      [of example_json_load example_render GET_api_tactical_heatmap good_store]
    no_request_changes_the_store
      [of example_json_load example_render "POST_api_upload_video mp4_upload" good_store]
  by simp

text \<open>
  C4. The upload handler raises the 400 \<open>HTTPException\<close> exactly when the declared
  content type does not begin with \<open>video/\<close> (a missing content type begins with
  nothing), the route then answers 400, and it answers 200 exactly when the declared
  content type begins with \<open>video/\<close>.
\<close>

theorem upload_video_rejects_exactly_non_video:
  "((fst (upload_video video fs) = Inl (HTTPException 400 ''File must be a video''))
      = (\<not> (\<exists>ct. content_type video = Some ct \<and> startswith ct ''video/''))) \<and>
   ((status_code (fst (app json_load render (POST_api_upload_video video) fs)) = 400)
      = (\<not> (\<exists>ct. content_type video = Some ct \<and> startswith ct ''video/''))) \<and>
   ((status_code (fst (app json_load render (POST_api_upload_video video) fs)) = 200)
      = (\<exists>ct. content_type video = Some ct \<and> startswith ct ''video/''))"
proof (cases "\<exists>ct. content_type video = Some ct \<and> startswith ct ''video/''")
  case True
  then have "\<exists>body. fst (upload_video video fs) = Inr body \<and> Dict_str_Any body"
    by (simp add: upload_video_eq)
  with True show ?thesis
    by (auto simp add: app_upload_video respond_def as_it_is_def simp del: app.simps)
next
  case False
  then have "fst (upload_video video fs) = Inl (HTTPException 400 ''File must be a video'')"
    by (simp add: upload_video_eq)
  with False show ?thesis
    by (simp add: app_upload_video respond_def del: app.simps)
qed

theorem upload_video_rejects_exactly_non_video_witness:
  "status_code (fst (app example_json_load example_render (POST_api_upload_video mp4_upload)
     empty_store)) = 200 \<and>
   status_code (fst (app example_json_load example_render (POST_api_upload_video png_upload)
     empty_store)) = 400"
proof -
  have video: "\<exists>ct. content_type mp4_upload = Some ct \<and> startswith ct ''video/''"
    by (simp add: mp4_upload_def startswith_def)
  have image: "\<not> (\<exists>ct. content_type png_upload = Some ct \<and> startswith ct ''video/'')"
    by (simp add: png_upload_def startswith_def)
  show ?thesis
    using video image
      upload_video_rejects_exactly_non_video
        [of mp4_upload empty_store example_json_load example_render]
      upload_video_rejects_exactly_non_video
        [of png_upload empty_store example_json_load example_render]
    by simp
qed

text \<open>
  C9. An upload that declares no content type, or the empty one, is refused like a
  non-video one: the handler raises the 400 \<open>HTTPException\<close>, never returns the
  acknowledgment, and the route answers 400.
\<close>

theorem upload_video_without_content_type:
  assumes "content_type video = None \<or> content_type video = Some []"
  shows "fst (upload_video video fs) = Inl (HTTPException 400 ''File must be a video'') \<and>
         status_code (fst (app json_load render (POST_api_upload_video video) fs)) = 400"
proof -
  from assms have "\<not> (\<exists>ct. content_type video = Some ct \<and> startswith ct ''video/'')"
    by (auto simp add: startswith_def)
  then show ?thesis
    by (simp add: app_upload_video upload_video_eq respond_def del: app.simps)
qed

theorem upload_video_without_content_type_witness:
  "fst (upload_video untyped_upload empty_store) = Inl (HTTPException 400 ''File must be a video'') \<and>
   status_code (fst (app example_json_load example_render (POST_api_upload_video untyped_upload)
     empty_store)) = 400"
proof -
  have "content_type untyped_upload = None \<or> content_type untyped_upload = Some []"
    by (simp add: untyped_upload_def)
  then show ?thesis
    by (rule upload_video_without_content_type)
qed

text \<open>
  C5. Whenever the upload handler accepts a file, what it returns is the dict with the
  fixed message, \<open>video_id\<close> 1, the file name of the request (\<open>null\<close> when the request
  has none) and the content type of the request, and the route answers 200 with it.
\<close>

theorem upload_video_acknowledgment:
  assumes "fst (upload_video video fs) = Inr body"
  shows "(\<exists>ct. content_type video = Some ct \<and>
            body = JObject
              [(''message'', JStr ''Video uploaded successfully''),
               (''video_id'', JInt 1),
               (''filename'', (case filename video of None \<Rightarrow> JNull | Some n \<Rightarrow> JStr n)),
               (''content_type'', JStr ct)]) \<and>
         fst (app json_load render (POST_api_upload_video video) fs) = JSONResponse 200 body"
proof -
  from assms obtain ct where ct: "content_type video = Some ct" "startswith ct ''video/''"
    by (auto simp add: upload_video_eq split: if_splits)
  with assms have body: "body = JObject
              [(''message'', JStr ''Video uploaded successfully''),
               (''video_id'', JInt 1),
               (''filename'', (case filename video of None \<Rightarrow> JNull | Some n \<Rightarrow> JStr n)),
               (''content_type'', JStr ct)]"
    by (auto simp add: upload_video_eq split: if_splits)
  from assms body
  have "fst (app json_load render (POST_api_upload_video video) fs) = JSONResponse 200 body"
    by (simp add: app_upload_video respond_def as_it_is_def del: app.simps)
  with ct body show ?thesis
    by blast
qed

theorem upload_video_acknowledgment_witness:
  "fst (app example_json_load example_render (POST_api_upload_video mp4_upload) empty_store) =
     JSONResponse 200 (JObject
       [(''message'', JStr ''Video uploaded successfully''),
        (''video_id'', JInt 1),
        (''filename'', JStr ''match.mp4''),
        (''content_type'', JStr ''video/mp4'')])"
proof -
  have "fst (upload_video mp4_upload empty_store) = Inr (JObject
       [(''message'', JStr ''Video uploaded successfully''),
        (''video_id'', JInt 1),
        (''filename'', JStr ''match.mp4''),
        (''content_type'', JStr ''video/mp4'')])"
    by (simp add: upload_video_def mp4_upload_def startswith_def)
  from upload_video_acknowledgment [OF this, of example_json_load example_render] show ?thesis
    by simp
qed

text \<open>
  C1, as the code has it. A data endpoint answers 200 with a body exactly when its fixture
  is a file that can be read, \<open>json.load\<close> returns a value for its content, the value
  passes the route's response model (a list of dicts for heatmap, tracking, offside and
  fouls, a dict for pass-network and goal-prediction), and the framework renders the value
  as that body. No other test stands between the fixture and the response; the entity
  schemas are not consulted.
\<close>

theorem data_endpoint_checks_response_model_only:
  "(fst (app json_load render (request_of e) fs) = JSONResponse 200 body) =
     (\<exists>content data. fs (fixture e) = File content \<and> json_load content = Inr data \<and>
        response_model e data \<and> render data = Inr body)"
proof (cases "fs (fixture e)")
  case (File content)
  show ?thesis
  proof (cases "json_load content")
    case (Inl err)
    with File show ?thesis
      by (simp add: app_data_endpoint handler_outcome respond_def)
  next
    case (Inr data)
    with File show ?thesis
      by (cases "render data") (simp_all add: app_data_endpoint handler_outcome respond_def)
  qed
qed (simp_all add: app_data_endpoint handler_outcome respond_def)

theorem data_endpoint_checks_response_model_only_witness:
  "fst (app example_json_load example_render (request_of Heatmap) good_store) =
     JSONResponse 200 (JArray [good_point])"
proof -
  have "\<exists>content data. good_store (fixture Heatmap) = File content \<and>
          example_json_load content = Inr data \<and> response_model Heatmap data \<and>
          example_render data = Inr (JArray [good_point])"
    by (simp add: good_store_def store_with_def example_json_load_def example_render_def
        good_point_def)
  then show ?thesis
    using data_endpoint_checks_response_model_only
      [of example_json_load example_render Heatmap good_store "JArray [good_point]"]
    by blast
qed

text \<open>
  C1, as the claim states it, fails: a heatmap fixture whose only point has \<open>x = 500\<close> is
  refused by the \<open>HeatmapPoint\<close> schema and served with status 200 all the same.
\<close>

theorem entity_schema_not_enforced:
  \<open>HeatmapPoint_validate plain bad_point = Inl (out_of_range ''x'') \<and>
   bad_store (fixture Heatmap) = File ''[{"x": 500, "y": 50, "intensity": 0.7}]'' \<and>
   example_json_load ''[{"x": 500, "y": 50, "intensity": 0.7}]'' = Inr (JArray [bad_point]) \<and>
   app example_json_load example_render GET_api_tactical_heatmap bad_store
     = (JSONResponse 200 (JArray [bad_point]), bad_store)\<close>
proof -
  have rejected: "HeatmapPoint_validate plain bad_point = Inl (out_of_range ''x'')"
    by (simp add: HeatmapPoint_validate_def bad_point_def plain_def Field_def and_then_def
        in_bounds_def)
  have found: \<open>bad_store (fixture Heatmap) = File ''[{"x": 500, "y": 50, "intensity": 0.7}]''\<close>
    by (simp add: bad_store_def store_with_def)
  have decoded: \<open>example_json_load ''[{"x": 500, "y": 50, "intensity": 0.7}]''
      = Inr (JArray [bad_point])\<close>
    by (simp add: example_json_load_def)
  have rendered: "example_render (JArray [bad_point]) = Inr (JArray [bad_point])"
    by (simp add: example_render_def good_point_def bad_point_def)
  have served: "app example_json_load example_render GET_api_tactical_heatmap bad_store
     = (JSONResponse 200 (JArray [bad_point]), bad_store)"
    using found decoded rendered
    by (simp add: route_def get_heatmap_def tactical_load_json_file_eq respond_def
        bad_point_def)
  from rejected found decoded served show ?thesis
    by simp
qed




text \<open>
  A fixture that is valid for \<open>json.load\<close> and of the right shape need not come back as it
  is: the heatmap fixture \<open>[{"x": NaN}]\<close> is answered 200 with \<open>null\<close> in the place of the
  float.
\<close>

lemma not_a_number_rendered_null:
  \<open>nan_store (fixture Heatmap) = File ''[{"x": NaN}]'' \<and>
   example_json_load ''[{"x": NaN}]'' = Inr (JArray [JObject [(''x'', JNaN)]]) \<and>
   app example_json_load example_render GET_api_tactical_heatmap nan_store
     = (JSONResponse 200 (JArray [JObject [(''x'', JNull)]]), nan_store)\<close>
  by (simp add: route_def get_heatmap_def tactical_load_json_file_eq respond_def
      nan_store_def store_with_def example_json_load_def example_render_def
      good_point_def bad_point_def)

text \<open>
  C7. Whatever conversions pydantic applies, a record that a schema accepts is within the
  bounds its fields declare: \<open>HeatmapPoint\<close> has \<open>x\<close> and \<open>y\<close> in [0, 100] and
  \<open>intensity\<close> in [0, 1]; \<open>GoalPrediction\<close> has \<open>shot_x\<close> and \<open>shot_y\<close> in [0, 100] and
  \<open>xG\<close> in [0, 1]; \<open>TrackingPoint\<close>, \<open>OffsideEvent\<close> and \<open>FoulEvent\<close> have
  \<open>timestamp\<close> at least 0 and \<open>x\<close> and \<open>y\<close> in [0, 100]; the \<open>speed\<close> of a
  \<open>TrackingPoint\<close>, when there is one, is at least 0; a \<open>PassConnection\<close> has \<open>count\<close>
  at least 0, and so has every connection of an accepted \<open>PassNetwork\<close>.
\<close>

theorem accepted_records_within_bounds:
  "(HeatmapPoint_validate c raw1 = Inr hp \<longrightarrow>
      0 \<le> HeatmapPoint.x hp \<and> HeatmapPoint.x hp \<le> 100 \<and>
      0 \<le> HeatmapPoint.y hp \<and> HeatmapPoint.y hp \<le> 100 \<and>
      0 \<le> intensity hp \<and> intensity hp \<le> 1) \<and>
   (GoalPrediction_validate c raw2 = Inr gp \<longrightarrow>
      0 \<le> shot_x gp \<and> shot_x gp \<le> 100 \<and> 0 \<le> shot_y gp \<and> shot_y gp \<le> 100 \<and>
      0 \<le> xG gp \<and> xG gp \<le> 1) \<and>
   (TrackingPoint_validate c raw3 = Inr tp \<longrightarrow>
      0 \<le> TrackingPoint.timestamp tp \<and>
      0 \<le> TrackingPoint.x tp \<and> TrackingPoint.x tp \<le> 100 \<and>
      0 \<le> TrackingPoint.y tp \<and> TrackingPoint.y tp \<le> 100 \<and>
      (case speed tp of None \<Rightarrow> True | Some s \<Rightarrow> 0 \<le> s)) \<and>
   (OffsideEvent_validate c raw4 = Inr oe \<longrightarrow>
      0 \<le> OffsideEvent.timestamp oe \<and>
      0 \<le> OffsideEvent.x oe \<and> OffsideEvent.x oe \<le> 100 \<and>
      0 \<le> OffsideEvent.y oe \<and> OffsideEvent.y oe \<le> 100) \<and>
   (FoulEvent_validate c raw5 = Inr fe \<longrightarrow>
      0 \<le> FoulEvent.timestamp fe \<and>
      0 \<le> FoulEvent.x fe \<and> FoulEvent.x fe \<le> 100 \<and>
      0 \<le> FoulEvent.y fe \<and> FoulEvent.y fe \<le> 100) \<and>
   (PassConnection_validate c raw6 = Inr pc \<longrightarrow> 0 \<le> count pc) \<and>
   (PassNetwork_validate c raw7 = Inr pn \<longrightarrow> list_all (\<lambda>p. 0 \<le> count p) (passes pn))"
proof (intro conjI impI)
  assume "HeatmapPoint_validate c raw1 = Inr hp"
  from HeatmapPoint_bounds [OF this]
  show "0 \<le> HeatmapPoint.x hp" "HeatmapPoint.x hp \<le> 100"
    "0 \<le> HeatmapPoint.y hp" "HeatmapPoint.y hp \<le> 100"
    "0 \<le> intensity hp" "intensity hp \<le> 1"
    by simp_all
next
  assume "GoalPrediction_validate c raw2 = Inr gp"
  from GoalPrediction_bounds [OF this]
  show "0 \<le> shot_x gp" "shot_x gp \<le> 100" "0 \<le> shot_y gp" "shot_y gp \<le> 100"
    "0 \<le> xG gp" "xG gp \<le> 1"
    by simp_all
next
  assume "TrackingPoint_validate c raw3 = Inr tp"
  from TrackingPoint_bounds [OF this]
  show "0 \<le> TrackingPoint.timestamp tp"
    "0 \<le> TrackingPoint.x tp" "TrackingPoint.x tp \<le> 100"
    "0 \<le> TrackingPoint.y tp" "TrackingPoint.y tp \<le> 100"
    "case speed tp of None \<Rightarrow> True | Some s \<Rightarrow> 0 \<le> s"
    by simp_all
next
  assume "OffsideEvent_validate c raw4 = Inr oe"
  from OffsideEvent_bounds [OF this]
  show "0 \<le> OffsideEvent.timestamp oe"
    "0 \<le> OffsideEvent.x oe" "OffsideEvent.x oe \<le> 100"
    "0 \<le> OffsideEvent.y oe" "OffsideEvent.y oe \<le> 100"
    by simp_all
next
  assume "FoulEvent_validate c raw5 = Inr fe"
  from FoulEvent_bounds [OF this]
  show "0 \<le> FoulEvent.timestamp fe"
    "0 \<le> FoulEvent.x fe" "FoulEvent.x fe \<le> 100"
    "0 \<le> FoulEvent.y fe" "FoulEvent.y fe \<le> 100"
    by simp_all
next
  assume "PassConnection_validate c raw6 = Inr pc"
  then show "0 \<le> count pc"
    by (rule PassConnection_bounds)
next
  assume "PassNetwork_validate c raw7 = Inr pn"
  then show "list_all (\<lambda>p. 0 \<le> count p) (passes pn)"
    by (rule PassNetwork_bounds)
qed

theorem accepted_records_within_bounds_witness:
  "HeatmapPoint_validate plain good_point
     = Inr \<lparr>HeatmapPoint.x = 20, y = 50, intensity = 0.7\<rparr> \<and>
   GoalPrediction_validate plain goal_example
     = Inr \<lparr>shot_x = 30, shot_y = 70, xG = 0.45, is_goal = False\<rparr> \<and>
   TrackingPoint_validate plain tracking_example
     = Inr \<lparr>TrackingPoint.player_id = 10, timestamp = 120.5, x = 45.2, y = 30.8,
            speed = Some 5.2\<rparr> \<and>
   OffsideEvent_validate plain offside_example
     = Inr \<lparr>OffsideEvent.player_id = 9, timestamp = 245.3, x = 85.2, y = 45,
            is_correct = True\<rparr> \<and>
   FoulEvent_validate plain (foul_example ''minor'')
     = Inr \<lparr>foul_id = 1, player_committed = 5, player_suffered = 10, timestamp = 180.5,
            x = 50, y = 30, severity = ''minor'', is_correct = True\<rparr> \<and>
   PassConnection_validate plain pass_example
     = Inr \<lparr>from_player = 8, to_player = 10, count = 12\<rparr> \<and>
   PassNetwork_validate plain network_example
     = Inr \<lparr>passes = [\<lparr>from_player = 8, to_player = 10, count = 12\<rparr>,
                      \<lparr>from_player = 6, to_player = 22, count = 5\<rparr>]\<rparr> \<and>
   (0::real) \<le> 0.7 \<and> (0.7::real) \<le> 1 \<and> (0::real) \<le> 0.45 \<and> (0.45::real) \<le> 1 \<and>
   (0::real) \<le> 5.2 \<and> (85.2::real) \<le> 100 \<and> (0::int) \<le> 12 \<and> (0::int) \<le> 5"
proof -
  have hp: "HeatmapPoint_validate plain good_point
     = Inr \<lparr>HeatmapPoint.x = 20, y = 50, intensity = 0.7\<rparr>"
    by (simp add: HeatmapPoint_validate_def good_point_def plain_def Field_def and_then_def
        in_bounds_def)
  have gp: "GoalPrediction_validate plain goal_example
     = Inr \<lparr>shot_x = 30, shot_y = 70, xG = 0.45, is_goal = False\<rparr>"
    by (simp add: GoalPrediction_validate_def goal_example_def plain_def Field_def
        and_then_def in_bounds_def)
  have tp: "TrackingPoint_validate plain tracking_example
     = Inr \<lparr>TrackingPoint.player_id = 10, timestamp = 120.5, x = 45.2, y = 30.8,
            speed = Some 5.2\<rparr>"
    by (simp add: TrackingPoint_validate_def tracking_example_def plain_def Field_def
        Field_default_None_def and_then_def in_bounds_def)
  have oe: "OffsideEvent_validate plain offside_example
     = Inr \<lparr>OffsideEvent.player_id = 9, timestamp = 245.3, x = 85.2, y = 45,
            is_correct = True\<rparr>"
    by (simp add: OffsideEvent_validate_def offside_example_def plain_def Field_def
        and_then_def in_bounds_def)
  have fe: "FoulEvent_validate plain (foul_example ''minor'')
     = Inr \<lparr>foul_id = 1, player_committed = 5, player_suffered = 10, timestamp = 180.5,
            x = 50, y = 30, severity = ''minor'', is_correct = True\<rparr>"
    by (rule FoulEvent_severity_unconstrained)
  have pc: "PassConnection_validate plain pass_example
     = Inr \<lparr>from_player = 8, to_player = 10, count = 12\<rparr>"
    by (simp add: PassConnection_validate_def pass_example_def by_alias_or_name_def plain_def
        Field_def and_then_def in_bounds_def)
  have pn: "PassNetwork_validate plain network_example
     = Inr \<lparr>passes = [\<lparr>from_player = 8, to_player = 10, count = 12\<rparr>,
                      \<lparr>from_player = 6, to_player = 22, count = 5\<rparr>]\<rparr>"
    by (simp add: PassNetwork_validate_def PassConnection_validate_def network_example_def
        pass_example_def by_alias_or_name_def plain_def Field_def and_then_def in_bounds_def)
  from hp gp tp oe fe pc pn
    accepted_records_within_bounds
      [of plain good_point "\<lparr>HeatmapPoint.x = 20, y = 50, intensity = 0.7\<rparr>"
        goal_example "\<lparr>shot_x = 30, shot_y = 70, xG = 0.45, is_goal = False\<rparr>"
        tracking_example
        "\<lparr>TrackingPoint.player_id = 10, timestamp = 120.5, x = 45.2, y = 30.8,
          speed = Some 5.2\<rparr>"
        offside_example
        "\<lparr>OffsideEvent.player_id = 9, timestamp = 245.3, x = 85.2, y = 45,
          is_correct = True\<rparr>"
        "foul_example ''minor''"
        "\<lparr>foul_id = 1, player_committed = 5, player_suffered = 10, timestamp = 180.5,
          x = 50, y = 30, severity = ''minor'', is_correct = True\<rparr>"
        pass_example "\<lparr>from_player = 8, to_player = 10, count = 12\<rparr>"
        network_example
        "\<lparr>passes = [\<lparr>from_player = 8, to_player = 10, count = 12\<rparr>,
                     \<lparr>from_player = 6, to_player = 22, count = 5\<rparr>]\<rparr>"]
  show ?thesis
    by simp
qed

text \<open>
  C6. \<open>FoulEvent.severity\<close> is annotated \<open>str\<close>: the schema accepts the foul whose severity
  is \<open>card\<close>, which is none of the four values of \<open>SeverityLevel\<close>.
\<close>

theorem FoulEvent_accepts_unlisted_severity:
  "FoulEvent_validate plain (foul_example ''card'') =
     Inr \<lparr>foul_id = 1, player_committed = 5, player_suffered = 10, timestamp = 180.5,
          x = 50, y = 30, severity = ''card'', is_correct = True\<rparr> \<and>
   ''card'' \<notin> set SeverityLevel_values \<and>
   SeverityLevel_values = [''minor'', ''major'', ''yellow_card'', ''red_card'']"
  by (simp add: FoulEvent_severity_unconstrained SeverityLevel_values_def)

end
